theory Spec2Isabelle
  imports Main
begin

section \<open>The pizza shop of \<open>Python/archive/2_1_factory.py\<close>\<close>

text \<open>
  The program is a registry-based factory (\<open>PizzaFactory\<close>), two category handlers
  (\<open>VegChef\<close>, \<open>NonVegChef\<close>), a dispatcher trying them in turn (\<open>HeadChef\<close>), and the
  \<open>Order\<close>, \<open>Receptionist\<close> and \<open>Waiter\<close> classes around them.

  Everything the Python does beyond returning a result is explicit here:
  \<^item> the class attributes \<open>PizzaFactory.registry\<close> and \<open>PizzaFactory.categories\<close>, the
    objects allocated so far and the text written by \<open>print\<close> are the fields of one
    record \<open>world\<close>, which every operation takes and returns;
  \<^item> an object reference is the index of the object in the store of its class, and a
    constructor call appends to that store, so that the identity of an instance can be
    talked about;
  \<^item> \<open>raise ValueError(msg)\<close> is the result \<open>Inl (ValueError msg)\<close>; the world is returned
    beside it, since an exception does not undo what was done before it.
  Python's \<open>str\<close> is modelled by \<open>string\<close>, holding the UTF-8 encoding of the text.
\<close>

subsection \<open>Data\<close>

text \<open>The four concrete subclasses of \<open>Pizza\<close>; the registry stores the class as constructor.\<close>

datatype pizza_class = Margherita | Paneer | Chicken | Farmhouse

type_synonym ref = nat

text \<open>An instance of \<open>Order\<close>: its two attributes, \<open>pizza\<close> a reference to a \<open>Pizza\<close> instance.\<close>

record order =
  order_id :: int
  pizza :: ref

record world =
  registry :: "string \<rightharpoonup> pizza_class"
  categories :: "string \<rightharpoonup> string set"
  pizzas :: "pizza_class list"
  orders :: "order list"
  stdout :: string

text \<open>Every exception of the program is a \<open>ValueError\<close>, told apart by its message only.\<close>

datatype error = ValueError string

text \<open>The two concrete subclasses of \<open>Chef\<close>; neither has attributes.\<close>

datatype chef = VegChef | NonVegChef

text \<open>
  \<open>HeadChef\<close> holds a dict of chefs; a dict iterates in insertion order, hence the
  association list. \<open>Receptionist\<close> holds the kitchen.
\<close>

record head_chef =
  chef_registry :: "(string \<times> chef) list"

record receptionist =
  kitchen :: head_chef

text \<open>The module as loaded, before the first \<open>register\<close>: both dicts empty, nothing allocated or printed.\<close>

definition initial_world :: world where
  "initial_world = \<lparr>registry = Map.empty, categories = Map.empty, pizzas = [], orders = [], stdout = []\<rparr>"

subsection \<open>Text output\<close>

text \<open>\<open>print(s)\<close> writes \<open>s\<close> and a newline.\<close>

definition print :: "string \<Rightarrow> world \<Rightarrow> world" where
  "print s w = w\<lparr>stdout := stdout w @ s @ [CHR 0x0A]\<rparr>"

text \<open>\<open>str\<close> of an integer, as an f-string formats \<open>{order_id}\<close>: decimal, with a minus sign.\<close>

definition digit_char :: "nat \<Rightarrow> char" where
  "digit_char d = ''0123456789'' ! d"

fun str_nat :: "nat \<Rightarrow> string" where
  "str_nat n = (if n < 10 then [digit_char n] else str_nat (n div 10) @ [digit_char (n mod 10)])"

definition str_int :: "int \<Rightarrow> string" where
  "str_int i = (if i < 0 then CHR ''-'' # str_nat (nat (- i)) else str_nat (nat i))"

subsection \<open>\<open>Pizza\<close> and its subclasses\<close>

text \<open>What \<open>prepare\<close> of each subclass prints.\<close>

fun prepare_text :: "pizza_class \<Rightarrow> string" where
  "prepare_text Margherita = ''Margherita: Cheese only!''"
| "prepare_text Paneer = ''Paneer Pizza: Spicy paneer chunks!''"
| "prepare_text Chicken = ''Chicken Pizza: Grilled chicken!''"
| "prepare_text Farmhouse = ''Farmhouse Pizza: Loaded with veggies!''"

text \<open>
  \<open>p.prepare()\<close> for a reference \<open>p\<close> to a pizza: the method of the class of the object.
  A Python reference always designates a live object; for an index outside the store the
  model does nothing, and no theorem below relies on that branch.
\<close>

definition Pizza_prepare :: "ref \<Rightarrow> world \<Rightarrow> world" where
  "Pizza_prepare p w = (if p < length (pizzas w) then print (prepare_text (pizzas w ! p)) w else w)"

text \<open>Calling a class: a new instance, at the next free reference.\<close>

definition new_pizza :: "pizza_class \<Rightarrow> world \<Rightarrow> ref \<times> world" where
  "new_pizza c w = (length (pizzas w), w\<lparr>pizzas := pizzas w @ [c]\<rparr>)"

subsection \<open>\<open>PizzaFactory\<close>\<close>

definition register :: "string \<Rightarrow> pizza_class \<Rightarrow> string \<Rightarrow> world \<Rightarrow> world" where
  "register name constructor category w =
     (let w1 = w\<lparr>registry := (registry w)(name \<mapsto> constructor)\<rparr>;
          members = (case categories w1 category of None \<Rightarrow> {} | Some s \<Rightarrow> s)
      in w1\<lparr>categories := (categories w1)(category \<mapsto> insert name members)\<rparr>)"

definition get_pizza :: "string \<Rightarrow> world \<Rightarrow> (error + ref) \<times> world" where
  "get_pizza name w =
     (case registry w name of
        Some constructor \<Rightarrow> (let (p, w') = new_pizza constructor w in (Inr p, w'))
      | None \<Rightarrow> (Inl (ValueError (''Unknown pizza type: '' @ name)), w))"

definition get_category :: "string \<Rightarrow> world \<Rightarrow> string set" where
  "get_category category w = (case categories w category of None \<Rightarrow> {} | Some s \<Rightarrow> s)"

text \<open>The four calls of \<open>register\<close> the module makes when it is loaded.\<close>

definition shop_world :: world where
  "shop_world =
     register ''chicken'' Chicken ''nonveg''
       (register ''farmhouse'' Farmhouse ''veg''
         (register ''paneer'' Paneer ''veg''
           (register ''margherita'' Margherita ''veg'' initial_world)))"

subsection \<open>The chefs\<close>

fun prepare_pizza :: "chef \<Rightarrow> string \<Rightarrow> world \<Rightarrow> (error + ref) \<times> world" where
  "prepare_pizza VegChef pizza_type w =
     (if pizza_type \<in> get_category ''veg'' w then get_pizza pizza_type w
      else (Inl (ValueError (''VegChef can'' @ [CHR 0x27] @ ''t prepare '' @ pizza_type)), w))"
| "prepare_pizza NonVegChef pizza_type w =
     (if pizza_type \<in> get_category ''nonveg'' w then get_pizza pizza_type w
      else (Inl (ValueError (''NonVegChef can'' @ [CHR 0x27] @ ''t prepare '' @ pizza_type)), w))"

subsection \<open>\<open>HeadChef\<close>\<close>

text \<open>
  The \<open>for\<close> loop of \<open>place_order\<close> over the chefs left to try: the first result
  returned ends it, a \<open>ValueError\<close> moves on to the next chef, and the \<open>raise\<close> after the
  loop is reached when no chef is left.
\<close>

fun place_order_loop :: "chef list \<Rightarrow> string \<Rightarrow> world \<Rightarrow> (error + ref) \<times> world" where
  "place_order_loop [] pizza_type w =
     (Inl (ValueError (''No chef available to prepare '' @ [CHR 0x27] @ pizza_type @ [CHR 0x27])), w)"
| "place_order_loop (c # cs) pizza_type w =
     (case prepare_pizza c pizza_type w of
        (Inr p, w') \<Rightarrow> (Inr p, w')
      | (Inl (ValueError msg), w') \<Rightarrow> place_order_loop cs pizza_type w')"

definition place_order :: "head_chef \<Rightarrow> string \<Rightarrow> world \<Rightarrow> (error + ref) \<times> world" where
  "place_order self pizza_type w = place_order_loop (map snd (chef_registry self)) pizza_type w"

subsection \<open>\<open>Order\<close>, \<open>Receptionist\<close>, \<open>Waiter\<close>\<close>

text \<open>The emoji that open the three status lines, as the bytes of their UTF-8 encoding.\<close>

definition chef_emoji :: string where
  "chef_emoji = [CHR 0xF0, CHR 0x9F, CHR 0x91, CHR 0xA8, CHR 0xE2, CHR 0x80, CHR 0x8D,
                 CHR 0xF0, CHR 0x9F, CHR 0x8D, CHR 0xB3]"

definition waiter_emoji :: string where
  "waiter_emoji = [CHR 0xF0, CHR 0x9F, CHR 0xA7, CHR 0x91, CHR 0xE2, CHR 0x80, CHR 0x8D,
                   CHR 0xF0, CHR 0x9F, CHR 0x8D, CHR 0xBD, CHR 0xEF, CHR 0xB8, CHR 0x8F]"

definition receipt_emoji :: string where
  "receipt_emoji = [CHR 0xF0, CHR 0x9F, CHR 0xA7, CHR 0xBE]"

text \<open>\<open>Order(order_id, pizza)\<close>: a new instance with the two attributes set.\<close>

definition Order_init :: "int \<Rightarrow> ref \<Rightarrow> world \<Rightarrow> ref \<times> world" where
  "Order_init oid p w = (length (orders w), w\<lparr>orders := orders w @ [\<lparr>order_id = oid, pizza = p\<rparr>]\<rparr>)"

text \<open>
  The methods of \<open>Order\<close> take the reference \<open>self\<close> and read its attributes from the
  store. As for pizzas, a reference outside the store leaves the world as it is.
\<close>

definition Order_prepare :: "ref \<Rightarrow> world \<Rightarrow> world" where
  "Order_prepare self w =
     (if self < length (orders w) then
        (let w1 = print (chef_emoji @ '' Chef: Preparing Order #'' @ str_int (order_id (orders w ! self))) w
         in Pizza_prepare (pizza (orders w1 ! self)) w1)
      else w)"

definition Order_deliver :: "ref \<Rightarrow> world \<Rightarrow> world" where
  "Order_deliver self w =
     (if self < length (orders w) then
        (let w1 = print (waiter_emoji @ '' Waiter: Delivering Order #'' @ str_int (order_id (orders w ! self))) w
         in Pizza_prepare (pizza (orders w1 ! self)) w1)
      else w)"

definition take_order :: "receptionist \<Rightarrow> string \<Rightarrow> int \<Rightarrow> world \<Rightarrow> (error + ref) \<times> world" where
  "take_order self pizza_type oid w =
     (let w1 = print ([CHR 0x0A] @ receipt_emoji @ '' Receptionist: Received Order #'' @ str_int oid
                       @ '' for '' @ [CHR 0x27] @ pizza_type @ [CHR 0x27] @ '' pizza.'') w
      in case place_order (kitchen self) pizza_type w1 of
           (Inl e, w2) \<Rightarrow> (Inl e, w2)
         | (Inr p, w2) \<Rightarrow> (let (ord, w3) = Order_init oid p w2 in (Inr ord, w3)))"

definition Waiter_deliver :: "ref \<Rightarrow> world \<Rightarrow> world" where
  "Waiter_deliver ord w = Order_deliver ord w"

subsection \<open>The error kinds of the specification\<close>

text \<open>
  The specification names three kinds of failure; in the program each is a \<open>ValueError\<close>
  with its own message.
\<close>

definition UnknownItemType :: "string \<Rightarrow> error" where
  "UnknownItemType name = ValueError (''Unknown pizza type: '' @ name)"

fun chef_name :: "chef \<Rightarrow> string" where
  "chef_name VegChef = ''VegChef''"
| "chef_name NonVegChef = ''NonVegChef''"

definition CategoryMismatch :: "chef \<Rightarrow> string \<Rightarrow> error" where
  "CategoryMismatch c name = ValueError (chef_name c @ '' can'' @ [CHR 0x27] @ ''t prepare '' @ name)"

definition NoHandlerAvailable :: "string \<Rightarrow> error" where
  "NoHandlerAvailable name =
     ValueError (''No chef available to prepare '' @ [CHR 0x27] @ name @ [CHR 0x27])"

text \<open>The category a chef serves: the literal its \<open>prepare_pizza\<close> passes to \<open>get_category\<close>.\<close>

fun chef_category :: "chef \<Rightarrow> string" where
  "chef_category VegChef = ''veg''"
| "chef_category NonVegChef = ''nonveg''"

subsection \<open>Notions used to state the properties\<close>

text \<open>A sequence of \<open>register\<close> calls, each given by its three arguments, run in order.\<close>

fun registers :: "(string \<times> pizza_class \<times> string) list \<Rightarrow> world \<Rightarrow> world" where
  "registers [] w = w"
| "registers ((name, constructor, category) # rs) w = registers rs (register name constructor category w)"

text \<open>
  The invariant of the two dicts of \<open>PizzaFactory\<close>: a name that is a member of a
  category has a constructor in the registry.
\<close>

definition registry_inv :: "world \<Rightarrow> bool" where
  "registry_inv w = (\<forall>category name. name \<in> get_category category w \<longrightarrow> registry w name \<noteq> None)"

text \<open>The kitchen and the receptionist that the \<open>__main__\<close> block builds.\<close>

definition shop_kitchen :: head_chef where
  "shop_kitchen = \<lparr>chef_registry = [(''veg'', VegChef), (''nonveg'', NonVegChef)]\<rparr>"

definition shop_receptionist :: receptionist where
  "shop_receptionist = \<lparr>kitchen = shop_kitchen\<rparr>"

text \<open>
  A world that no sequence of \<open>register\<close> calls produces: \<open>ghost\<close> is a member of the
  category \<open>veg\<close> and has no constructor.
\<close>

definition ghost_world :: world where
  "ghost_world = initial_world\<lparr>categories := [''veg'' \<mapsto> {''ghost''}]\<rparr>"

text \<open>The shop after the order number 5, for a paneer pizza, has been taken.\<close>

definition served_world :: world where
  "served_world = snd (take_order shop_receptionist ''paneer'' 5 shop_world)"

text \<open>Every order of the store refers to a pizza of the store.\<close>

definition refs_valid :: "world \<Rightarrow> bool" where
  "refs_valid w = (\<forall>ord \<in> set (orders w). pizza ord < length (pizzas w))"

text \<open>
  The worlds that the operations of the program produce from the module as loaded. The
  methods of \<open>Order\<close> are called on orders of the store.
\<close>

inductive reachable :: "world \<Rightarrow> bool" where
  loaded: "reachable initial_world"
| by_register: "reachable w \<Longrightarrow> reachable (register n k c w)"
| by_get_pizza: "reachable w \<Longrightarrow> reachable (snd (get_pizza n w))"
| by_prepare_pizza: "reachable w \<Longrightarrow> reachable (snd (prepare_pizza ch n w))"
| by_place_order: "reachable w \<Longrightarrow> reachable (snd (place_order hc n w))"
| by_take_order: "reachable w \<Longrightarrow> reachable (snd (take_order rc n i w))"
| by_Order_prepare: "reachable w \<Longrightarrow> r < length (orders w) \<Longrightarrow> reachable (Order_prepare r w)"
| by_Order_deliver: "reachable w \<Longrightarrow> r < length (orders w) \<Longrightarrow> reachable (Order_deliver r w)"
| by_Waiter_deliver: "reachable w \<Longrightarrow> r < length (orders w) \<Longrightarrow> reachable (Waiter_deliver r w)"

definition sound :: "world \<Rightarrow> bool" where
  "sound w = (registry_inv w \<and> refs_valid w)"

section \<open>Properties\<close>

subsection \<open>The registry\<close>

lemma registry_register [simp]:
  "registry (register n k c w) = (registry w)(n \<mapsto> k)"
  by (simp add: register_def Let_def)

lemma get_category_register [simp]:
  "get_category c' (register n k c w) = (if c' = c then insert n (get_category c w) else get_category c' w)"
  by (simp add: register_def get_category_def Let_def)

lemma categories_register:
  "categories (register n k c w) = (categories w)(c \<mapsto> insert n (get_category c w))"
  by (simp add: register_def get_category_def Let_def)

lemma register_rest [simp]:
  "pizzas (register n k c w) = pizzas w"
  "orders (register n k c w) = orders w"
  "stdout (register n k c w) = stdout w"
  by (simp_all add: register_def Let_def)

lemma registry_inv_initial: "registry_inv initial_world"
  by (simp add: registry_inv_def get_category_def initial_world_def)

lemma registry_inv_register: "registry_inv w \<Longrightarrow> registry_inv (register n k c w)"
  by (auto simp: registry_inv_def)

lemma registry_inv_registers: "registry_inv w \<Longrightarrow> registry_inv (registers rs w)"
  by (induction rs w rule: registers.induct) (simp_all add: registry_inv_register)

lemma get_category_registers:
  "get_category c (registers rs w) = get_category c w \<union> {n. \<exists>k. (n, k, c) \<in> set rs}"
  by (induction rs w rule: registers.induct) auto

lemma get_pizza_Some:
  "registry w n = Some k \<Longrightarrow> get_pizza n w = (Inr (length (pizzas w)), w\<lparr>pizzas := pizzas w @ [k]\<rparr>)"
  by (simp add: get_pizza_def new_pizza_def)

lemma get_pizza_None:
  "registry w n = None \<Longrightarrow> get_pizza n w = (Inl (UnknownItemType n), w)"
  by (simp add: get_pizza_def UnknownItemType_def)

lemma prepare_pizza_eq:
  "prepare_pizza c n w =
     (if n \<in> get_category (chef_category c) w then get_pizza n w else (Inl (CategoryMismatch c n), w))"
  by (cases c) (simp_all add: CategoryMismatch_def)

lemma error_kinds_distinct:
  "UnknownItemType a \<noteq> CategoryMismatch c b"
  "UnknownItemType a \<noteq> NoHandlerAvailable b"
  "CategoryMismatch c a \<noteq> NoHandlerAvailable b"
  by (cases c; simp add: UnknownItemType_def CategoryMismatch_def NoHandlerAvailable_def)+


lemma prepare_pizza_fail_world:
  "prepare_pizza c n w = (Inl e, w') \<Longrightarrow> w' = w"
  by (cases c) (auto simp: get_pizza_def new_pizza_def split: if_splits option.splits)

lemma place_order_loop_absorb:
  "prepare_pizza c n w = (Inl e, w') \<Longrightarrow> place_order_loop (c # cs) n w = place_order_loop cs n w'"
  by (cases e) simp

lemma place_order_loop_result:
  "(\<exists>p w'. place_order_loop cs n w = (Inr p, w')) \<or> place_order_loop cs n w = (Inl (NoHandlerAvailable n), w)"
proof (induction cs)
  case Nil
  show ?case by (simp add: NoHandlerAvailable_def)
next
  case (Cons c cs)
  obtain r w1 where pp: "prepare_pizza c n w = (r, w1)" by (cases "prepare_pizza c n w")
  show ?case
  proof (cases r)
    case (Inl e)
    with pp have fails: "prepare_pizza c n w = (Inl e, w1)" by simp
    then have "w1 = w" by (rule prepare_pizza_fail_world)
    moreover from fails have "place_order_loop (c # cs) n w = place_order_loop cs n w1"
      by (rule place_order_loop_absorb)
    ultimately show ?thesis using Cons.IH by simp
  next
    case (Inr p)
    with pp show ?thesis by simp
  qed
qed

lemma place_order_loop_no_member:
  "\<forall>c \<in> set cs. n \<notin> get_category (chef_category c) w \<Longrightarrow>
   place_order_loop cs n w = (Inl (NoHandlerAvailable n), w)"
proof (induction cs)
  case Nil
  show ?case by (simp add: NoHandlerAvailable_def)
next
  case (Cons c cs)
  then have "prepare_pizza c n w = (Inl (CategoryMismatch c n), w)"
    by (simp add: prepare_pizza_eq)
  then have "place_order_loop (c # cs) n w = place_order_loop cs n w"
    by (rule place_order_loop_absorb)
  with Cons show ?case by simp
qed

lemma place_order_loop_member:
  "registry_inv w \<Longrightarrow> \<exists>c \<in> set cs. n \<in> get_category (chef_category c) w \<Longrightarrow>
   place_order_loop cs n w = get_pizza n w \<and> (\<exists>p w'. get_pizza n w = (Inr p, w'))"
proof (induction cs)
  case Nil
  then show ?case by simp
next
  case (Cons c cs)
  from Cons.prems obtain k where k: "registry w n = Some k"
    by (auto simp: registry_inv_def)
  show ?case
  proof (cases "n \<in> get_category (chef_category c) w")
    case True
    then have "prepare_pizza c n w = get_pizza n w" by (simp add: prepare_pizza_eq)
    with k show ?thesis by (simp add: get_pizza_Some)
  next
    case False
    then have "prepare_pizza c n w = (Inl (CategoryMismatch c n), w)"
      by (simp add: prepare_pizza_eq)
    then have "place_order_loop (c # cs) n w = place_order_loop cs n w"
      by (rule place_order_loop_absorb)
    moreover from False Cons.prems(2) have "\<exists>c \<in> set cs. n \<in> get_category (chef_category c) w"
      by auto
    ultimately show ?thesis using Cons.IH Cons.prems(1) by simp
  qed
qed

text \<open>
  Claim C1. In a world whose registry satisfies its invariant, \<open>HeadChef.place_order\<close>
  returns a pizza if and only if the name is a member of the category of one of the
  configured chefs, and then it returns what \<open>get_pizza\<close> returns; otherwise it raises
  the "No chef available" error and leaves the world as it was. The "can't prepare"
  error of a single chef is never the result.
\<close>

theorem place_order_iff_member:
  assumes "registry_inv w"
  shows "((\<exists>p w'. place_order hc n w = (Inr p, w')) \<longleftrightarrow>
            (\<exists>c \<in> set (map snd (chef_registry hc)). n \<in> get_category (chef_category c) w))
       \<and> ((\<exists>c \<in> set (map snd (chef_registry hc)). n \<in> get_category (chef_category c) w) \<longrightarrow>
            place_order hc n w = get_pizza n w)
       \<and> (\<not> (\<exists>c \<in> set (map snd (chef_registry hc)). n \<in> get_category (chef_category c) w) \<longrightarrow>
            place_order hc n w = (Inl (NoHandlerAvailable n), w))
       \<and> (\<forall>c m. fst (place_order hc n w) \<noteq> Inl (CategoryMismatch c m))"
proof -
  let ?cs = "map snd (chef_registry hc)"
  let ?M = "\<exists>c \<in> set ?cs. n \<in> get_category (chef_category c) w"
  have yes: "?M \<Longrightarrow> place_order hc n w = get_pizza n w \<and> (\<exists>p w'. get_pizza n w = (Inr p, w'))"
    unfolding place_order_def using assms by (rule place_order_loop_member)
  have no: "\<not> ?M \<Longrightarrow> place_order hc n w = (Inl (NoHandlerAvailable n), w)"
    unfolding place_order_def by (rule place_order_loop_no_member) simp
  have res: "(\<exists>p w'. place_order hc n w = (Inr p, w')) \<or> place_order hc n w = (Inl (NoHandlerAvailable n), w)"
    unfolding place_order_def by (rule place_order_loop_result)
  have "(\<exists>p w'. place_order hc n w = (Inr p, w')) \<longleftrightarrow> ?M"
    using yes no by (cases ?M) auto
  moreover have "\<forall>c m. fst (place_order hc n w) \<noteq> Inl (CategoryMismatch c m)"
    using res error_kinds_distinct(3) by (metis fst_conv sum.distinct(1) sum.inject(1))
  ultimately show ?thesis using yes no by blast
qed


lemma shop_world_registers:
  "shop_world = registers [(''margherita'', Margherita, ''veg''), (''paneer'', Paneer, ''veg''),
                           (''farmhouse'', Farmhouse, ''veg''), (''chicken'', Chicken, ''nonveg'')] initial_world"
  by (simp add: shop_world_def)

lemma registry_inv_shop_world: "registry_inv shop_world"
  unfolding shop_world_registers by (rule registry_inv_registers [OF registry_inv_initial])

lemma get_category_initial [simp]: "get_category c initial_world = {}"
  by (simp add: get_category_def initial_world_def)

lemma registry_initial [simp]: "registry initial_world = Map.empty"
  by (simp add: initial_world_def)

lemma get_category_shop_world:
  "get_category ''veg'' shop_world = {''margherita'', ''paneer'', ''farmhouse''}"
  "get_category ''nonveg'' shop_world = {''chicken''}"
  by (auto simp: shop_world_def)

lemma registry_shop_world:
  "registry shop_world = [''margherita'' \<mapsto> Margherita, ''paneer'' \<mapsto> Paneer,
                          ''farmhouse'' \<mapsto> Farmhouse, ''chicken'' \<mapsto> Chicken]"
  by (simp add: shop_world_def)

theorem place_order_iff_member_witness:
  "registry_inv shop_world
   \<and> place_order shop_kitchen ''paneer'' shop_world = get_pizza ''paneer'' shop_world
   \<and> (\<exists>p w'. place_order shop_kitchen ''paneer'' shop_world = (Inr p, w'))
   \<and> place_order shop_kitchen ''pepperoni'' shop_world = (Inl (NoHandlerAvailable ''pepperoni''), shop_world)"
proof -
  have inv: "registry_inv shop_world" by (rule registry_inv_shop_world)
  have served: "\<exists>c \<in> set (map snd (chef_registry shop_kitchen)).
                  ''paneer'' \<in> get_category (chef_category c) shop_world"
    by (simp add: shop_kitchen_def get_category_shop_world)
  have unserved: "\<not> (\<exists>c \<in> set (map snd (chef_registry shop_kitchen)).
                      ''pepperoni'' \<in> get_category (chef_category c) shop_world)"
    by (simp add: shop_kitchen_def get_category_shop_world)
  from place_order_iff_member [OF inv, of shop_kitchen "''paneer''"] served
  have "place_order shop_kitchen ''paneer'' shop_world = get_pizza ''paneer'' shop_world"
    and "\<exists>p w'. place_order shop_kitchen ''paneer'' shop_world = (Inr p, w')"
    by blast+
  moreover from place_order_iff_member [OF inv, of shop_kitchen "''pepperoni''"] unserved
  have "place_order shop_kitchen ''pepperoni'' shop_world = (Inl (NoHandlerAvailable ''pepperoni''), shop_world)"
    by blast
  ultimately show ?thesis using inv by simp
qed

subsection \<open>The factory and the chefs\<close>

text \<open>
  Claim C2. When the name has a constructor \<open>k\<close> in the registry, \<open>PizzaFactory.get_pizza\<close>
  returns a reference that was not in use before the call and that designates, after it,
  an instance of class \<open>k\<close>; the instances that existed keep their references and classes,
  and no later call returns that reference again. It raises if and only if the name has
  no constructor, and the error is then "Unknown pizza type" with the world unchanged.
\<close>

theorem get_pizza_registered:
  "(\<forall>k. registry w n = Some k \<longrightarrow>
      (\<exists>p w'. get_pizza n w = (Inr p, w') \<and> \<not> p < length (pizzas w) \<and> p < length (pizzas w')
          \<and> pizzas w' ! p = k \<and> take (length (pizzas w)) (pizzas w') = pizzas w
          \<and> (\<forall>m q w''. get_pizza m w' = (Inr q, w'') \<longrightarrow> q \<noteq> p)))
   \<and> ((\<exists>e w'. get_pizza n w = (Inl e, w')) \<longleftrightarrow> registry w n = None)
   \<and> (registry w n = None \<longrightarrow> get_pizza n w = (Inl (UnknownItemType n), w))"
proof -
  have "\<exists>p w'. get_pizza n w = (Inr p, w') \<and> \<not> p < length (pizzas w) \<and> p < length (pizzas w')
          \<and> pizzas w' ! p = k \<and> take (length (pizzas w)) (pizzas w') = pizzas w
          \<and> (\<forall>m q w''. get_pizza m w' = (Inr q, w'') \<longrightarrow> q \<noteq> p)"
    if "registry w n = Some k" for k
  proof -
    let ?w' = "w\<lparr>pizzas := pizzas w @ [k]\<rparr>"
    from that have "get_pizza n w = (Inr (length (pizzas w)), ?w')" by (rule get_pizza_Some)
    moreover have "\<forall>m q w''. get_pizza m ?w' = (Inr q, w'') \<longrightarrow> q \<noteq> length (pizzas w)"
      by (auto simp: get_pizza_def new_pizza_def split: option.splits)
    ultimately show ?thesis by simp
  qed
  moreover have "(\<exists>e w'. get_pizza n w = (Inl e, w')) \<longleftrightarrow> registry w n = None"
    by (auto simp: get_pizza_def new_pizza_def split: option.splits)
  moreover have "registry w n = None \<longrightarrow> get_pizza n w = (Inl (UnknownItemType n), w)"
    by (simp add: get_pizza_None)
  ultimately show ?thesis by blast
qed

theorem get_pizza_registered_witness:
  "registry shop_world ''paneer'' = Some Paneer
   \<and> get_pizza ''paneer'' shop_world = (Inr 0, shop_world\<lparr>pizzas := [Paneer]\<rparr>)
   \<and> registry shop_world ''pepperoni'' = None
   \<and> get_pizza ''pepperoni'' shop_world = (Inl (UnknownItemType ''pepperoni''), shop_world)"
proof -
  have reg: "registry shop_world ''paneer'' = Some Paneer" "registry shop_world ''pepperoni'' = None"
    by (simp_all add: registry_shop_world)
  have store: "pizzas shop_world = []" by (simp add: shop_world_def initial_world_def)
  from get_pizza_registered [of shop_world "''paneer''"] reg(1)
  obtain p w' where "get_pizza ''paneer'' shop_world = (Inr p, w')" by blast
  moreover from reg(1) have "get_pizza ''paneer'' shop_world = (Inr 0, shop_world\<lparr>pizzas := [Paneer]\<rparr>)"
    by (simp add: get_pizza_Some store)
  moreover from get_pizza_registered [of shop_world "''pepperoni''"] reg(2)
  have "get_pizza ''pepperoni'' shop_world = (Inl (UnknownItemType ''pepperoni''), shop_world)"
    by blast
  ultimately show ?thesis using reg by simp
qed

text \<open>
  Claim C3. A chef returns what \<open>get_pizza\<close> returns when the name is a member of the
  chef's category, and raises its "can't prepare" error, leaving the world unchanged,
  when it is not.
\<close>

theorem prepare_pizza_category:
  "prepare_pizza c n w =
     (if n \<in> get_category (chef_category c) w then get_pizza n w
      else (Inl (CategoryMismatch c n), w))"
  by (rule prepare_pizza_eq)

theorem prepare_pizza_category_witness:
  "prepare_pizza VegChef ''paneer'' shop_world = get_pizza ''paneer'' shop_world
   \<and> prepare_pizza VegChef ''chicken'' shop_world = (Inl (CategoryMismatch VegChef ''chicken''), shop_world)
   \<and> prepare_pizza NonVegChef ''chicken'' shop_world = get_pizza ''chicken'' shop_world
   \<and> prepare_pizza NonVegChef ''paneer'' shop_world = (Inl (CategoryMismatch NonVegChef ''paneer''), shop_world)"
  using prepare_pizza_category [of VegChef "''paneer''" shop_world]
        prepare_pizza_category [of VegChef "''chicken''" shop_world]
        prepare_pizza_category [of NonVegChef "''chicken''" shop_world]
        prepare_pizza_category [of NonVegChef "''paneer''" shop_world]
  by (simp add: get_category_shop_world)

text \<open>
  Claim C5. \<open>PizzaFactory.register\<close> maps the name to the constructor, replacing an earlier
  one, and adds the name to the member set of the category, which is created when absent;
  a name registered under two categories is a member of both, with the later constructor.
  Nothing else of the world changes.
\<close>

theorem register_effect:
  "registry (register n k c w) = (registry w)(n \<mapsto> k)
   \<and> categories (register n k c w) = (categories w)(c \<mapsto> insert n (get_category c w))
   \<and> get_category c (register n k c w) = insert n (get_category c w)
   \<and> categories (register n k c w) c \<noteq> None
   \<and> n \<in> get_category c1 (register n k2 c2 (register n k1 c1 w))
   \<and> n \<in> get_category c2 (register n k2 c2 (register n k1 c1 w))
   \<and> registry (register n k2 c2 (register n k1 c1 w)) n = Some k2
   \<and> pizzas (register n k c w) = pizzas w
   \<and> orders (register n k c w) = orders w
   \<and> stdout (register n k c w) = stdout w"
  by (simp add: categories_register)

text \<open>
  Claim C6. \<open>PizzaFactory.get_category\<close> returns the member set stored for the category,
  and the empty set for a category that is not a key of the dict; it is a total function
  to sets, with no error result. After a sequence of \<open>register\<close> calls from the empty
  dicts the members of a category are exactly the names registered under it.
\<close>

theorem get_category_members:
  "(\<forall>s. categories w c = Some s \<longrightarrow> get_category c w = s)
   \<and> (categories w c = None \<longrightarrow> get_category c w = {})
   \<and> get_category c (registers rs initial_world) = {n. \<exists>k. (n, k, c) \<in> set rs}"
  by (simp add: get_category_registers) (simp add: get_category_def)

theorem get_category_members_witness:
  "categories shop_world ''veg'' = Some {''margherita'', ''paneer'', ''farmhouse''}
   \<and> get_category ''veg'' shop_world = {''margherita'', ''paneer'', ''farmhouse''}
   \<and> categories shop_world ''vegan'' = None
   \<and> get_category ''vegan'' shop_world = {}"
proof -
  have known: "categories shop_world ''veg'' = Some {''margherita'', ''paneer'', ''farmhouse''}"
    by (auto simp: shop_world_def categories_register get_category_def initial_world_def)
  have unknown: "categories shop_world ''vegan'' = None"
    by (simp add: shop_world_def categories_register initial_world_def)
  from get_category_members [of shop_world "''veg''"] known
  have "get_category ''veg'' shop_world = {''margherita'', ''paneer'', ''farmhouse''}" by blast
  moreover from get_category_members [of shop_world "''vegan''"] unknown
  have "get_category ''vegan'' shop_world = {}" by blast
  ultimately show ?thesis using known unknown by simp
qed

subsection \<open>The dispatcher\<close>

lemma print_fields [simp]:
  "registry (print s w) = registry w"
  "categories (print s w) = categories w"
  "pizzas (print s w) = pizzas w"
  "orders (print s w) = orders w"
  "stdout (print s w) = stdout w @ s @ [CHR 0x0A]"
  "get_category c (print s w) = get_category c w"
  by (simp_all add: print_def get_category_def)

lemma get_pizza_print:
  "get_pizza n (print s w) = apsnd (print s) (get_pizza n w)"
  by (simp add: get_pizza_def new_pizza_def print_def split: option.splits)

lemma prepare_pizza_print:
  "prepare_pizza c n (print s w) = apsnd (print s) (prepare_pizza c n w)"
  by (simp add: prepare_pizza_eq get_pizza_print)

lemma place_order_loop_print:
  "place_order_loop cs n (print s w) = apsnd (print s) (place_order_loop cs n w)"
proof (induction cs arbitrary: w)
  case Nil
  show ?case by simp
next
  case (Cons c cs)
  obtain r w1 where pp: "prepare_pizza c n w = (r, w1)" by (cases "prepare_pizza c n w")
  then have pp': "prepare_pizza c n (print s w) = (r, print s w1)"
    by (simp add: prepare_pizza_print)
  show ?case
  proof (cases r)
    case (Inl e)
    with pp have "place_order_loop (c # cs) n w = place_order_loop cs n w1"
      by (simp only: place_order_loop_absorb)
    moreover from Inl pp' have "place_order_loop (c # cs) n (print s w) = place_order_loop cs n (print s w1)"
      by (simp only: place_order_loop_absorb)
    ultimately show ?thesis by (simp only: Cons.IH)
  next
    case (Inr p)
    with pp pp' show ?thesis by simp
  qed
qed

lemma place_order_print:
  "place_order hc n (print s w) = apsnd (print s) (place_order hc n w)"
  by (simp add: place_order_def place_order_loop_print)

lemma get_pizza_cases:
  "(\<exists>k. registry w n = Some k \<and> get_pizza n w = (Inr (length (pizzas w)), w\<lparr>pizzas := pizzas w @ [k]\<rparr>))
   \<or> get_pizza n w = (Inl (UnknownItemType n), w)"
  by (cases "registry w n") (simp_all add: get_pizza_None get_pizza_Some)

lemma prepare_pizza_cases:
  "(\<exists>k. registry w n = Some k \<and> prepare_pizza c n w = (Inr (length (pizzas w)), w\<lparr>pizzas := pizzas w @ [k]\<rparr>))
   \<or> (\<exists>e. prepare_pizza c n w = (Inl e, w))"
  using get_pizza_cases [of w n] by (auto simp: prepare_pizza_eq)

lemma place_order_loop_cases:
  "(\<exists>k. registry w n = Some k \<and> place_order_loop cs n w = (Inr (length (pizzas w)), w\<lparr>pizzas := pizzas w @ [k]\<rparr>))
   \<or> place_order_loop cs n w = (Inl (NoHandlerAvailable n), w)"
proof (induction cs)
  case Nil
  show ?case by (simp add: NoHandlerAvailable_def)
next
  case (Cons c cs)
  from prepare_pizza_cases [of w n c] show ?case
  proof (elim disjE exE conjE)
    fix k assume "registry w n = Some k"
      and "prepare_pizza c n w = (Inr (length (pizzas w)), w\<lparr>pizzas := pizzas w @ [k]\<rparr>)"
    then show ?thesis by simp
  next
    fix e assume "prepare_pizza c n w = (Inl e, w)"
    then have "place_order_loop (c # cs) n w = place_order_loop cs n w"
      by (rule place_order_loop_absorb)
    with Cons.IH show ?thesis by simp
  qed
qed

lemma place_order_cases:
  "(\<exists>k. registry w n = Some k \<and> place_order hc n w = (Inr (length (pizzas w)), w\<lparr>pizzas := pizzas w @ [k]\<rparr>))
   \<or> place_order hc n w = (Inl (NoHandlerAvailable n), w)"
  unfolding place_order_def by (rule place_order_loop_cases)

text \<open>
  Claim C10. \<open>HeadChef.place_order\<close> moves on to the next chef whatever error a chef
  raises: the loop after a failed chef is the loop over the remaining chefs. This holds
  in every world, also one where a name is a member of a category without having a
  constructor, so that the chef fails with "Unknown pizza type". Hence \<open>place_order\<close>
  either returns a pizza or raises "No chef available", and raises nothing else.
\<close>

theorem place_order_absorbs_all:
  "(\<forall>c cs e w'. prepare_pizza c n w = (Inl e, w') \<longrightarrow>
       place_order_loop (c # cs) n w = place_order_loop cs n w')
   \<and> (\<forall>c. n \<in> get_category (chef_category c) w \<and> registry w n = None \<longrightarrow>
         prepare_pizza c n w = (Inl (UnknownItemType n), w))
   \<and> ((\<exists>p w'. place_order hc n w = (Inr p, w')) \<or> place_order hc n w = (Inl (NoHandlerAvailable n), w))
   \<and> (\<forall>e w'. place_order hc n w = (Inl e, w') \<longrightarrow> e = NoHandlerAvailable n)"
proof -
  have "\<forall>c cs e w'. prepare_pizza c n w = (Inl e, w') \<longrightarrow>
          place_order_loop (c # cs) n w = place_order_loop cs n w'"
    by (blast intro: place_order_loop_absorb)
  moreover have "\<forall>c. n \<in> get_category (chef_category c) w \<and> registry w n = None \<longrightarrow>
         prepare_pizza c n w = (Inl (UnknownItemType n), w)"
    by (simp add: prepare_pizza_eq get_pizza_None)
  moreover have res: "(\<exists>p w'. place_order hc n w = (Inr p, w'))
                 \<or> place_order hc n w = (Inl (NoHandlerAvailable n), w)"
    using place_order_cases [of w n hc] by auto
  moreover from res have "\<forall>e w'. place_order hc n w = (Inl e, w') \<longrightarrow> e = NoHandlerAvailable n"
    by auto
  ultimately show ?thesis by blast
qed

theorem place_order_absorbs_all_witness:
  "''ghost'' \<in> get_category (chef_category VegChef) ghost_world
   \<and> registry ghost_world ''ghost'' = None
   \<and> prepare_pizza VegChef ''ghost'' ghost_world = (Inl (UnknownItemType ''ghost''), ghost_world)
   \<and> place_order_loop [VegChef, NonVegChef] ''ghost'' ghost_world = place_order_loop [NonVegChef] ''ghost'' ghost_world
   \<and> place_order shop_kitchen ''ghost'' ghost_world = (Inl (NoHandlerAvailable ''ghost''), ghost_world)"
proof -
  have member: "''ghost'' \<in> get_category (chef_category VegChef) ghost_world"
    by (simp add: ghost_world_def get_category_def)
  have absent: "registry ghost_world ''ghost'' = None"
    by (simp add: ghost_world_def initial_world_def)
  note inst = place_order_absorbs_all [of "''ghost''" ghost_world shop_kitchen]
  from inst member absent
  have unknown: "prepare_pizza VegChef ''ghost'' ghost_world = (Inl (UnknownItemType ''ghost''), ghost_world)"
    by blast
  with inst
  have skip: "place_order_loop [VegChef, NonVegChef] ''ghost'' ghost_world = place_order_loop [NonVegChef] ''ghost'' ghost_world"
    by blast
  have "place_order shop_kitchen ''ghost'' ghost_world = place_order_loop [VegChef, NonVegChef] ''ghost'' ghost_world"
    by (simp add: place_order_def shop_kitchen_def del: place_order_loop.simps)
  also note skip
  also have "place_order_loop [NonVegChef] ''ghost'' ghost_world = (Inl (NoHandlerAvailable ''ghost''), ghost_world)"
    by (simp add: ghost_world_def get_category_def NoHandlerAvailable_def initial_world_def)
  finally show ?thesis using member absent unknown skip by simp
qed

text \<open>
  Claim C9. After any sequence of \<open>register\<close> calls from empty dicts, every member of
  every category has a constructor in the registry. Consequently a chef whose membership
  check succeeds returns the pizza that \<open>get_pizza\<close> returns: the lookup cannot fail.
\<close>

theorem registers_establish_invariant:
  assumes "registry w0 = Map.empty" and "categories w0 = Map.empty"
  shows "(\<forall>category name. name \<in> get_category category (registers rs w0) \<longrightarrow>
            registry (registers rs w0) name \<noteq> None)
       \<and> (\<forall>c name. name \<in> get_category (chef_category c) (registers rs w0) \<longrightarrow>
            (\<exists>p w'. prepare_pizza c name (registers rs w0) = (Inr p, w')
                    \<and> get_pizza name (registers rs w0) = (Inr p, w')))"
proof -
  from assms have "registry_inv w0" by (simp add: registry_inv_def get_category_def)
  then have inv: "registry_inv (registers rs w0)" by (rule registry_inv_registers)
  then have first: "\<forall>category name. name \<in> get_category category (registers rs w0) \<longrightarrow>
            registry (registers rs w0) name \<noteq> None"
    by (simp add: registry_inv_def)
  have "\<exists>p w'. prepare_pizza c name (registers rs w0) = (Inr p, w')
                    \<and> get_pizza name (registers rs w0) = (Inr p, w')"
    if "name \<in> get_category (chef_category c) (registers rs w0)" for c name
  proof -
    from that first obtain k where "registry (registers rs w0) name = Some k" by auto
    then have "get_pizza name (registers rs w0) =
        (Inr (length (pizzas (registers rs w0))), (registers rs w0)\<lparr>pizzas := pizzas (registers rs w0) @ [k]\<rparr>)"
      by (rule get_pizza_Some)
    with that show ?thesis by (simp add: prepare_pizza_eq)
  qed
  with first show ?thesis by blast
qed

theorem registers_establish_invariant_witness:
  "registry initial_world = Map.empty \<and> categories initial_world = Map.empty
   \<and> ''chicken'' \<in> get_category (chef_category NonVegChef) shop_world
   \<and> registry shop_world ''chicken'' \<noteq> None
   \<and> (\<exists>p w'. prepare_pizza NonVegChef ''chicken'' shop_world = (Inr p, w'))"
proof -
  have empty: "registry initial_world = Map.empty" "categories initial_world = Map.empty"
    by (simp_all add: initial_world_def)
  have member: "''chicken'' \<in> get_category (chef_category NonVegChef) shop_world"
    by (simp add: get_category_shop_world)
  note inst = registers_establish_invariant [OF empty,
      of "[(''margherita'', Margherita, ''veg''), (''paneer'', Paneer, ''veg''),
           (''farmhouse'', Farmhouse, ''veg''), (''chicken'', Chicken, ''nonveg'')]",
      folded shop_world_registers]
  from inst member have "registry shop_world ''chicken'' \<noteq> None" by blast
  moreover from inst member have "\<exists>p w'. prepare_pizza NonVegChef ''chicken'' shop_world = (Inr p, w')"
    by blast
  ultimately show ?thesis using empty member by simp
qed

subsection \<open>Orders\<close>

lemma Order_init_eq:
  "Order_init i p w = (length (orders w), w\<lparr>orders := orders w @ [\<lparr>order_id = i, pizza = p\<rparr>]\<rparr>)"
  by (simp add: Order_init_def)

lemma take_order_eq:
  "take_order self n i w =
     (case place_order (kitchen self) n w of
        (Inl e, w') \<Rightarrow>
          (Inl e, print ([CHR 0x0A] @ receipt_emoji @ '' Receptionist: Received Order #'' @ str_int i
                       @ '' for '' @ [CHR 0x27] @ n @ [CHR 0x27] @ '' pizza.'') w')
      | (Inr p, w') \<Rightarrow>
          (Inr (length (orders w')),
           (print ([CHR 0x0A] @ receipt_emoji @ '' Receptionist: Received Order #'' @ str_int i
                       @ '' for '' @ [CHR 0x27] @ n @ [CHR 0x27] @ '' pizza.'') w')
             \<lparr>orders := orders w' @ [\<lparr>order_id = i, pizza = p\<rparr>]\<rparr>))"
  by (simp add: take_order_def place_order_print Order_init_def Let_def split: prod.splits sum.splits)

lemma place_order_orders:
  "place_order hc n w = (r, w') \<Longrightarrow> orders w' = orders w"
  using place_order_cases [of w n hc] by auto

lemma place_order_Inr:
  "place_order hc n w = (Inr p, w') \<Longrightarrow>
     p = length (pizzas w) \<and> (\<exists>k. registry w n = Some k \<and> w' = w\<lparr>pizzas := pizzas w @ [k]\<rparr>)"
  using place_order_cases [of w n hc] by auto

lemma place_order_Inl:
  "place_order hc n w = (Inl e, w') \<Longrightarrow> e = NoHandlerAvailable n \<and> w' = w"
  using place_order_cases [of w n hc] by auto

text \<open>
  Claim C4. When \<open>place_order\<close> returns a pizza for the name, \<open>Receptionist.take_order\<close>
  returns a reference that was not in use before, designating a new \<open>Order\<close> whose
  \<open>order_id\<close> is the number given and whose \<open>pizza\<close> is that pizza; the orders that
  existed are unchanged. When \<open>place_order\<close> raises, \<open>take_order\<close> raises the same error
  and the store of orders is as before: no \<open>Order\<close> is created.
\<close>

theorem take_order_wraps:
  "(\<forall>p w'. place_order (kitchen self) n w = (Inr p, w') \<longrightarrow>
      (\<exists>ord w''. take_order self n i w = (Inr ord, w'')
          \<and> \<not> ord < length (orders w) \<and> ord < length (orders w'')
          \<and> orders w'' ! ord = \<lparr>order_id = i, pizza = p\<rparr>
          \<and> take (length (orders w)) (orders w'') = orders w
          \<and> p < length (pizzas w'') \<and> pizzas w'' = pizzas w'))
   \<and> (\<forall>e w'. place_order (kitchen self) n w = (Inl e, w') \<longrightarrow>
      (\<exists>w''. take_order self n i w = (Inl e, w'') \<and> orders w'' = orders w \<and> pizzas w'' = pizzas w))"
proof (intro conjI allI impI)
  fix p w' assume ok: "place_order (kitchen self) n w = (Inr p, w')"
  then have same: "orders w' = orders w" by (rule place_order_orders)
  from ok have "p < length (pizzas w')" by (auto dest: place_order_Inr)
  with ok same show "\<exists>ord w''. take_order self n i w = (Inr ord, w'')
          \<and> \<not> ord < length (orders w) \<and> ord < length (orders w'')
          \<and> orders w'' ! ord = \<lparr>order_id = i, pizza = p\<rparr>
          \<and> take (length (orders w)) (orders w'') = orders w
          \<and> p < length (pizzas w'') \<and> pizzas w'' = pizzas w'"
    by (simp add: take_order_eq)
next
  fix e w' assume bad: "place_order (kitchen self) n w = (Inl e, w')"
  then have "w' = w" by (auto dest: place_order_Inl)
  with bad show "\<exists>w''. take_order self n i w = (Inl e, w'') \<and> orders w'' = orders w \<and> pizzas w'' = pizzas w"
    by (simp add: take_order_eq)
qed

lemma pizzas_shop_world [simp]: "pizzas shop_world = []"
  by (simp add: shop_world_def initial_world_def)

lemma orders_shop_world [simp]: "orders shop_world = []"
  by (simp add: shop_world_def initial_world_def)

lemma place_order_paneer:
  "place_order shop_kitchen ''paneer'' shop_world = (Inr 0, shop_world\<lparr>pizzas := [Paneer]\<rparr>)"
proof -
  have "\<exists>c \<in> set (map snd (chef_registry shop_kitchen)). ''paneer'' \<in> get_category (chef_category c) shop_world"
    by (simp add: shop_kitchen_def get_category_shop_world)
  with place_order_loop_member [OF registry_inv_shop_world, of "map snd (chef_registry shop_kitchen)" "''paneer''"]
  have "place_order shop_kitchen ''paneer'' shop_world = get_pizza ''paneer'' shop_world"
    by (simp add: place_order_def)
  then show ?thesis by (simp add: get_pizza_Some registry_shop_world)
qed

lemma place_order_shrimp:
  "place_order shop_kitchen ''shrimp'' shop_world = (Inl (NoHandlerAvailable ''shrimp''), shop_world)"
  unfolding place_order_def
  by (rule place_order_loop_no_member) (simp add: shop_kitchen_def get_category_shop_world)

theorem take_order_wraps_witness:
  "place_order (kitchen shop_receptionist) ''paneer'' shop_world = (Inr 0, shop_world\<lparr>pizzas := [Paneer]\<rparr>)
   \<and> (\<exists>w''. take_order shop_receptionist ''paneer'' 5 shop_world = (Inr 0, w'')
            \<and> orders w'' = [\<lparr>order_id = 5, pizza = 0\<rparr>] \<and> pizzas w'' = [Paneer])
   \<and> place_order (kitchen shop_receptionist) ''shrimp'' shop_world = (Inl (NoHandlerAvailable ''shrimp''), shop_world)
   \<and> (\<exists>w''. take_order shop_receptionist ''shrimp'' 2 shop_world = (Inl (NoHandlerAvailable ''shrimp''), w'')
            \<and> orders w'' = [])"
proof -
  have ok: "place_order (kitchen shop_receptionist) ''paneer'' shop_world = (Inr 0, shop_world\<lparr>pizzas := [Paneer]\<rparr>)"
    by (simp add: shop_receptionist_def place_order_paneer)
  have bad: "place_order (kitchen shop_receptionist) ''shrimp'' shop_world = (Inl (NoHandlerAvailable ''shrimp''), shop_world)"
    by (simp add: shop_receptionist_def place_order_shrimp)
  from take_order_wraps [of shop_receptionist "''paneer''" shop_world 5] ok
  obtain ord w'' where "take_order shop_receptionist ''paneer'' 5 shop_world = (Inr ord, w'')"
    and "ord < length (orders w'')" and "orders w'' ! ord = \<lparr>order_id = 5, pizza = 0\<rparr>"
    and "take (length (orders shop_world)) (orders w'') = orders shop_world"
    and "pizzas w'' = pizzas (shop_world\<lparr>pizzas := [Paneer]\<rparr>)"
    by blast
  moreover from take_order_wraps [of shop_receptionist "''shrimp''" shop_world 2] bad
  obtain v'' where "take_order shop_receptionist ''shrimp'' 2 shop_world = (Inl (NoHandlerAvailable ''shrimp''), v'')"
    and "orders v'' = orders shop_world"
    by blast
  moreover have "take_order shop_receptionist ''paneer'' 5 shop_world
      = (Inr 0, snd (take_order shop_receptionist ''paneer'' 5 shop_world))
    \<and> orders (snd (take_order shop_receptionist ''paneer'' 5 shop_world)) = [\<lparr>order_id = 5, pizza = 0\<rparr>]"
    by (simp add: take_order_eq ok)
  ultimately show ?thesis using ok bad by simp
qed


lemma Pizza_prepare_eq:
  "p < length (pizzas w) \<Longrightarrow>
   Pizza_prepare p w = w\<lparr>stdout := stdout w @ prepare_text (pizzas w ! p) @ [CHR 0x0A]\<rparr>"
  by (simp add: Pizza_prepare_def print_def)

lemma Order_prepare_eq:
  "self < length (orders w) \<Longrightarrow> pizza (orders w ! self) < length (pizzas w) \<Longrightarrow>
   Order_prepare self w =
     w\<lparr>stdout := stdout w @ chef_emoji @ '' Chef: Preparing Order #'' @ str_int (order_id (orders w ! self))
                   @ [CHR 0x0A] @ prepare_text (pizzas w ! pizza (orders w ! self)) @ [CHR 0x0A]\<rparr>"
  by (simp add: Order_prepare_def Let_def Pizza_prepare_eq)

lemma Order_deliver_eq:
  "self < length (orders w) \<Longrightarrow> pizza (orders w ! self) < length (pizzas w) \<Longrightarrow>
   Order_deliver self w =
     w\<lparr>stdout := stdout w @ waiter_emoji @ '' Waiter: Delivering Order #'' @ str_int (order_id (orders w ! self))
                   @ [CHR 0x0A] @ prepare_text (pizzas w ! pizza (orders w ! self)) @ [CHR 0x0A]\<rparr>"
  by (simp add: Order_deliver_def Let_def Pizza_prepare_eq)

lemma Pizza_prepare_fields [simp]:
  "registry (Pizza_prepare p w) = registry w"
  "categories (Pizza_prepare p w) = categories w"
  "pizzas (Pizza_prepare p w) = pizzas w"
  "orders (Pizza_prepare p w) = orders w"
  by (simp_all add: Pizza_prepare_def)

lemma Order_prepare_fields [simp]:
  "registry (Order_prepare r w) = registry w"
  "categories (Order_prepare r w) = categories w"
  "pizzas (Order_prepare r w) = pizzas w"
  "orders (Order_prepare r w) = orders w"
  by (simp_all add: Order_prepare_def Let_def)

lemma Order_deliver_fields [simp]:
  "registry (Order_deliver r w) = registry w"
  "categories (Order_deliver r w) = categories w"
  "pizzas (Order_deliver r w) = pizzas w"
  "orders (Order_deliver r w) = orders w"
  by (simp_all add: Order_deliver_def Let_def)

text \<open>
  Claim C7. For an order in the store whose pizza is in the store, \<open>Order.deliver\<close> prints
  the waiter's line with the order's number and then calls \<open>prepare\<close> of the pizza, the
  call \<open>Order.prepare\<close> makes after the chef's line: both end with the line that the
  class of the pizza prints for its preparation.
\<close>

theorem deliver_prepares_item:
  assumes "self < length (orders w)" and "pizza (orders w ! self) < length (pizzas w)"
  shows "Order_deliver self w =
           Pizza_prepare (pizza (orders w ! self))
             (print (waiter_emoji @ '' Waiter: Delivering Order #'' @ str_int (order_id (orders w ! self))) w)
       \<and> Order_prepare self w =
           Pizza_prepare (pizza (orders w ! self))
             (print (chef_emoji @ '' Chef: Preparing Order #'' @ str_int (order_id (orders w ! self))) w)
       \<and> stdout (Order_deliver self w) =
           stdout w @ waiter_emoji @ '' Waiter: Delivering Order #'' @ str_int (order_id (orders w ! self))
             @ [CHR 0x0A] @ prepare_text (pizzas w ! pizza (orders w ! self)) @ [CHR 0x0A]
       \<and> stdout (Order_prepare self w) =
           stdout w @ chef_emoji @ '' Chef: Preparing Order #'' @ str_int (order_id (orders w ! self))
             @ [CHR 0x0A] @ prepare_text (pizzas w ! pizza (orders w ! self)) @ [CHR 0x0A]"
proof (intro conjI)
  from assms(1) show "Order_deliver self w =
           Pizza_prepare (pizza (orders w ! self))
             (print (waiter_emoji @ '' Waiter: Delivering Order #'' @ str_int (order_id (orders w ! self))) w)"
    by (simp add: Order_deliver_def Let_def)
  from assms(1) show "Order_prepare self w =
           Pizza_prepare (pizza (orders w ! self))
             (print (chef_emoji @ '' Chef: Preparing Order #'' @ str_int (order_id (orders w ! self))) w)"
    by (simp add: Order_prepare_def Let_def)
  from assms show "stdout (Order_deliver self w) =
           stdout w @ waiter_emoji @ '' Waiter: Delivering Order #'' @ str_int (order_id (orders w ! self))
             @ [CHR 0x0A] @ prepare_text (pizzas w ! pizza (orders w ! self)) @ [CHR 0x0A]"
    by (simp add: Order_deliver_eq)
  from assms show "stdout (Order_prepare self w) =
           stdout w @ chef_emoji @ '' Chef: Preparing Order #'' @ str_int (order_id (orders w ! self))
             @ [CHR 0x0A] @ prepare_text (pizzas w ! pizza (orders w ! self)) @ [CHR 0x0A]"
    by (simp add: Order_prepare_eq)
qed

lemma served_world_stores:
  "orders served_world = [\<lparr>order_id = 5, pizza = 0\<rparr>]" "pizzas served_world = [Paneer]"
  by (simp_all add: served_world_def take_order_eq shop_receptionist_def place_order_paneer)

lemma str_int_5: "str_int 5 = ''5''"
  by (simp add: str_int_def digit_char_def)

theorem deliver_prepares_item_witness:
  "0 < length (orders served_world) \<and> pizza (orders served_world ! 0) < length (pizzas served_world)
   \<and> stdout (Order_deliver 0 served_world) =
       stdout served_world @ waiter_emoji @ '' Waiter: Delivering Order #5'' @ [CHR 0x0A]
         @ ''Paneer Pizza: Spicy paneer chunks!'' @ [CHR 0x0A]
   \<and> stdout (Order_prepare 0 served_world) =
       stdout served_world @ chef_emoji @ '' Chef: Preparing Order #5'' @ [CHR 0x0A]
         @ ''Paneer Pizza: Spicy paneer chunks!'' @ [CHR 0x0A]"
proof -
  have valid: "0 < length (orders served_world)" "pizza (orders served_world ! 0) < length (pizzas served_world)"
    by (simp_all add: served_world_stores)
  note inst = deliver_prepares_item [OF valid]
  note delivered = inst [THEN conjunct2, THEN conjunct2, THEN conjunct1]
  note prepared = inst [THEN conjunct2, THEN conjunct2, THEN conjunct2]
  from delivered prepared valid show ?thesis
    by (simp add: served_world_stores str_int_5)
qed

lemma concat_replicate_snoc:
  "concat (replicate (Suc k) e) = concat (replicate k e) @ e"
  by (induction k) simp_all

lemma funpow_appends_stdout:
  assumes "\<And>s. f (w\<lparr>stdout := s\<rparr>) = w\<lparr>stdout := s @ e\<rparr>"
  shows "(f ^^ k) w = w\<lparr>stdout := stdout w @ concat (replicate k e)\<rparr>"
proof (induction k)
  case 0
  show ?case by simp
next
  case (Suc k)
  have "(f ^^ Suc k) w = f ((f ^^ k) w)" by simp
  also have "\<dots> = f (w\<lparr>stdout := stdout w @ concat (replicate k e)\<rparr>)" by (simp only: Suc.IH)
  also have "\<dots> = w\<lparr>stdout := (stdout w @ concat (replicate k e)) @ e\<rparr>" by (rule assms)
  also have "\<dots> = w\<lparr>stdout := stdout w @ concat (replicate (Suc k) e)\<rparr>"
    by (simp only: concat_replicate_snoc append_assoc)
  finally show ?case .
qed

text \<open>
  Claim C8. For an order in the store whose pizza is in the store, any number \<open>k\<close> of
  calls of \<open>Order.prepare\<close> appends \<open>k\<close> copies of one and the same text to the output
  and changes nothing else of the world, so the order keeps its two attributes. No
  operation of the program changes an order of the store: all leave the store as it is,
  except \<open>take_order\<close>, which only appends to it.
\<close>

theorem prepare_repeatable:
  assumes "self < length (orders w)" and "pizza (orders w ! self) < length (pizzas w)"
  shows "(Order_prepare self ^^ k) w =
           w\<lparr>stdout := stdout w @ concat (replicate k
               (chef_emoji @ '' Chef: Preparing Order #'' @ str_int (order_id (orders w ! self))
                  @ [CHR 0x0A] @ prepare_text (pizzas w ! pizza (orders w ! self)) @ [CHR 0x0A]))\<rparr>
       \<and> orders ((Order_prepare self ^^ k) w) ! self = orders w ! self
       \<and> (\<forall>r. orders (Order_prepare r w) = orders w)
       \<and> (\<forall>r. orders (Order_deliver r w) = orders w)
       \<and> (\<forall>r. orders (Waiter_deliver r w) = orders w)
       \<and> (\<forall>n c cat. orders (register n c cat w) = orders w)
       \<and> (\<forall>n. orders (snd (get_pizza n w)) = orders w)
       \<and> (\<forall>c n. orders (snd (prepare_pizza c n w)) = orders w)
       \<and> (\<forall>hc n. orders (snd (place_order hc n w)) = orders w)
       \<and> (\<forall>rc n i. take (length (orders w)) (orders (snd (take_order rc n i w))) = orders w)"
proof -
  let ?effect = "chef_emoji @ '' Chef: Preparing Order #'' @ str_int (order_id (orders w ! self))
                  @ [CHR 0x0A] @ prepare_text (pizzas w ! pizza (orders w ! self)) @ [CHR 0x0A]"
  have step: "Order_prepare self (w\<lparr>stdout := s\<rparr>) = w\<lparr>stdout := s @ ?effect\<rparr>" for s
    using assms Order_prepare_eq [of self "w\<lparr>stdout := s\<rparr>"] by simp
  have rep: "(Order_prepare self ^^ k) w = w\<lparr>stdout := stdout w @ concat (replicate k ?effect)\<rparr>"
    using step by (rule funpow_appends_stdout)
  have "orders (snd (get_pizza n w)) = orders w" for n
    using get_pizza_cases [of w n] by auto
  moreover have "orders (snd (prepare_pizza c n w)) = orders w" for c n
    using prepare_pizza_cases [of w n c] by auto
  moreover have "orders (snd (place_order hc n w)) = orders w" for hc n
    using place_order_cases [of w n hc] by auto
  moreover have "take (length (orders w)) (orders (snd (take_order rc n i w))) = orders w" for rc n i
    using place_order_cases [of w n "kitchen rc"] by (auto simp: take_order_eq)
  moreover from rep have "orders ((Order_prepare self ^^ k) w) ! self = orders w ! self"
    by simp
  ultimately show ?thesis using rep by (simp add: Waiter_deliver_def)
qed

theorem prepare_repeatable_witness:
  "0 < length (orders served_world) \<and> pizza (orders served_world ! 0) < length (pizzas served_world)
   \<and> Order_prepare 0 (Order_prepare 0 served_world) =
       served_world\<lparr>stdout := stdout served_world
          @ chef_emoji @ '' Chef: Preparing Order #5'' @ [CHR 0x0A] @ ''Paneer Pizza: Spicy paneer chunks!'' @ [CHR 0x0A]
          @ chef_emoji @ '' Chef: Preparing Order #5'' @ [CHR 0x0A] @ ''Paneer Pizza: Spicy paneer chunks!'' @ [CHR 0x0A]\<rparr>
   \<and> orders (Order_prepare 0 (Order_prepare 0 served_world)) = [\<lparr>order_id = 5, pizza = 0\<rparr>]"
proof -
  have valid: "0 < length (orders served_world)" "pizza (orders served_world ! 0) < length (pizzas served_world)"
    by (simp_all add: served_world_stores)
  have two: "(Order_prepare 0 ^^ 2) served_world = Order_prepare 0 (Order_prepare 0 served_world)"
    by (simp add: numeral_2_eq_2)
  from prepare_repeatable [OF valid, of 2] valid show ?thesis
    unfolding two by (simp add: served_world_stores str_int_5 numeral_2_eq_2)
qed


subsection \<open>Worlds the program reaches\<close>

text \<open>
  The hypotheses of the theorems above hold in every world that the operations produce
  from the module as loaded: members of categories have constructors, and every order
  refers to a pizza of the store.
\<close>

lemma sound_stdout [simp]: "sound (w\<lparr>stdout := s\<rparr>) = sound w"
  by (simp add: sound_def registry_inv_def refs_valid_def get_category_def)

lemma sound_new_pizza: "sound w \<Longrightarrow> sound (w\<lparr>pizzas := pizzas w @ [k]\<rparr>)"
  by (auto simp: sound_def registry_inv_def refs_valid_def get_category_def less_Suc_eq)

lemma sound_register: "sound w \<Longrightarrow> sound (register n k c w)"
  by (simp add: sound_def registry_inv_register) (simp add: refs_valid_def)

lemma sound_get_pizza: "sound w \<Longrightarrow> sound (snd (get_pizza n w))"
  using get_pizza_cases [of w n] by (auto simp: sound_new_pizza)

lemma sound_prepare_pizza: "sound w \<Longrightarrow> sound (snd (prepare_pizza c n w))"
  using prepare_pizza_cases [of w n c] by (auto simp: sound_new_pizza)

lemma sound_place_order: "sound w \<Longrightarrow> sound (snd (place_order hc n w))"
  using place_order_cases [of w n hc] by (auto simp: sound_new_pizza)

lemma sound_print: "sound (print s w) = sound w"
  by (simp add: print_def)

lemma sound_take_order:
  assumes "sound w"
  shows "sound (snd (take_order rc n i w))"
  using place_order_cases [of w n "kitchen rc"]
proof (elim disjE exE conjE)
  fix k assume "place_order (kitchen rc) n w = (Inr (length (pizzas w)), w\<lparr>pizzas := pizzas w @ [k]\<rparr>)"
  moreover from assms have "sound (w\<lparr>pizzas := pizzas w @ [k]\<rparr>)" by (rule sound_new_pizza)
  ultimately show ?thesis
    by (simp add: take_order_eq) (simp add: sound_def registry_inv_def refs_valid_def get_category_def print_def)
next
  assume "place_order (kitchen rc) n w = (Inl (NoHandlerAvailable n), w)"
  with assms show ?thesis by (simp add: take_order_eq sound_print)
qed

lemma sound_Pizza_prepare: "sound (Pizza_prepare p w) = sound w"
  by (simp add: Pizza_prepare_def sound_print)

lemma sound_Order_prepare: "sound (Order_prepare r w) = sound w"
  by (simp add: Order_prepare_def Let_def sound_Pizza_prepare sound_print)

lemma sound_Order_deliver: "sound (Order_deliver r w) = sound w"
  by (simp add: Order_deliver_def Let_def sound_Pizza_prepare sound_print)

lemma reachable_sound: "reachable w \<Longrightarrow> sound w"
proof (induction rule: reachable.induct)
  case loaded
  have "refs_valid initial_world" by (simp add: refs_valid_def initial_world_def)
  then show ?case by (simp add: sound_def registry_inv_initial)
qed (simp_all add: sound_register sound_get_pizza sound_prepare_pizza sound_place_order
       sound_take_order sound_Order_prepare sound_Order_deliver Waiter_deliver_def)

lemma reachable_refs:
  "reachable w \<Longrightarrow> r < length (orders w) \<Longrightarrow> pizza (orders w ! r) < length (pizzas w)"
  by (drule reachable_sound) (simp add: sound_def refs_valid_def)

lemma reachable_registry_inv: "reachable w \<Longrightarrow> registry_inv w"
  by (drule reachable_sound) (simp add: sound_def)

end
